theory Spec2Isabelle
  imports Complex_Main "HOL-Library.Multiset" "HOL-Library.Product_Lexorder"
begin

section \<open>Graphs handled by the command-line driver\<close>

text \<open>
  The driver \<^verbatim>\<open>__main__.py\<close> receives networkx graphs from the grid search and only
  looks at their node table (the columns \<^verbatim>\<open>type\<close> and \<^verbatim>\<open>degree\<close>), their number of
  nodes and their connected components. A graph is therefore a list of node rows, in
  insertion order, and a list of undirected edges between node names. The column
  \<^verbatim>\<open>frequency\<close> is the annotation an augmented forest carries on every node.
\<close>

record node_row =
  node_name :: string
  node_type :: string
  node_degree :: nat
  frequency :: real

record nxgraph =
  node_rows :: "node_row list"
  edge_list :: "(string \<times> string) list"

definition number_of_nodes :: "nxgraph \<Rightarrow> nat" where
  "number_of_nodes G = length (node_rows G)"

text \<open>
  Modelled from the spec: \<^verbatim>\<open>get_networkx_graph_as_node_edge_dataframes\<close> is imported from
  \<^verbatim>\<open>graph.py\<close>, which is not part of the sources at hand. The spec calls its result
  "one result's node/edge tables"; it is the node table and the edge table of the graph.
\<close>

definition get_networkx_graph_as_node_edge_dataframes ::
  "nxgraph \<Rightarrow> node_row list \<times> (string \<times> string) list" where
  "get_networkx_graph_as_node_edge_dataframes G = (node_rows G, edge_list G)"

subsection \<open>Connected components\<close>

text \<open>
  \<^verbatim>\<open>nx.connected_components\<close> yields the node sets of the connected components. Here
  every node starts as a component of its own and every edge joins the components of
  its two endpoints. \<^verbatim>\<open>nx.number_connected_components\<close> counts what the generator yields.
\<close>

definition touches :: "string \<times> string \<Rightarrow> string list \<Rightarrow> bool" where
  "touches e c = (fst e \<in> set c \<or> snd e \<in> set c)"

definition join_edge :: "string \<times> string \<Rightarrow> string list list \<Rightarrow> string list list" where
  "join_edge e cs =
     (if filter (touches e) cs = [] then cs
      else concat (filter (touches e) cs) # filter (\<lambda>c. \<not> touches e c) cs)"

definition connected_components :: "nxgraph \<Rightarrow> string list list" where
  "connected_components G =
     fold join_edge (edge_list G) (map (\<lambda>r. [node_name r]) (node_rows G))"

definition number_connected_components :: "nxgraph \<Rightarrow> nat" where
  "number_connected_components G = length (connected_components G)"

section \<open>Summary statistics\<close>

text \<open>
  The values numpy and pandas compute on a degree column: a finite number, minus
  infinity (\<^verbatim>\<open>np.log(0)\<close>) or NaN (the mean of an empty column). Finite arithmetic is
  done on the reals; rounding plays no role in what is proved here.
\<close>

datatype npfloat = NaN | NegInf | Finite real

definition np_log :: "nat \<Rightarrow> npfloat" where
  "np_log d = (if d = 0 then NegInf else Finite (ln (real d)))"

fun finite_part :: "npfloat \<Rightarrow> real" where
  "finite_part (Finite x) = x"
| "finite_part NegInf = 0"
| "finite_part NaN = 0"

text \<open>
  \<^verbatim>\<open>Series.mean()\<close> skips NaN entries, returns NaN when nothing is left, and otherwise
  divides the sum by the count; a sum with a minus infinity in it is minus infinity.
\<close>

definition series_mean :: "npfloat list \<Rightarrow> npfloat" where
  "series_mean xs =
     (let ys = filter (\<lambda>x. x \<noteq> NaN) xs in
      if ys = [] then NaN
      else if NegInf \<in> set ys then NegInf
      else Finite (sum_list (map finite_part ys) / real (length ys)))"

record summary_row =
  tag :: string
  n_all :: nat
  n_steiner :: nat
  n_prizes :: nat
  logDeg_all :: npfloat
  logDeg_steiner :: npfloat
  logDeg_prizes :: npfloat
  n_components :: nat
  n_singletons :: nat

definition get_summary_statistics_from_nxgraph :: "nxgraph \<Rightarrow> string \<Rightarrow> summary_row" where
  "get_summary_statistics_from_nxgraph G t =
     (let (nxgraph_nodes_df, nxgraph_edges_df) = get_networkx_graph_as_node_edge_dataframes G;
          steiners = filter (\<lambda>r. node_type r = ''steiner'') nxgraph_nodes_df;
          prizes = filter (\<lambda>r. node_type r \<noteq> ''steiner'') nxgraph_nodes_df
      in \<lparr> tag = t,
           n_all = length nxgraph_nodes_df,
           n_steiner = length steiners,
           n_prizes = length prizes,
           logDeg_all = series_mean (map (np_log \<circ> node_degree) nxgraph_nodes_df),
           logDeg_steiner = series_mean (map (np_log \<circ> node_degree) steiners),
           logDeg_prizes = series_mean (map (np_log \<circ> node_degree) prizes),
           n_components = number_connected_components G,
           n_singletons = length (filter (\<lambda>x. length x = 1) (connected_components G)) \<rparr>)"

section \<open>Command line and configuration mapping\<close>

text \<open>
  An invocation says, for every option of the parser, whether it was given and with which
  (already converted) values; \<open>None\<close> is an option absent from the command line. The
  flag \<^verbatim>\<open>--excludeTerminals\<close> is either present or not. The file system is consulted by
  the \<^verbatim>\<open>directory\<close> type check and by the \<^verbatim>\<open>FullPaths\<close> action.
\<close>

record invocation =
  given_edge_file :: "string option"
  given_prize_file :: "string option"
  given_output_dir :: "string option"
  given_w :: "real list option"
  given_b :: "real list option"
  given_g :: "real list option"
  given_noise :: "real option"
  given_noisy_edges :: "int option"
  given_random_terminals :: "int option"
  given_knockout :: "string list option"
  given_dummyMode :: "string option"
  given_excludeTerminals :: bool
  given_seed :: "int option"

record filesystem =
  isdir :: "string \<Rightarrow> bool"
  abspath :: "string \<Rightarrow> string"

record args =
  edge_file :: string
  prize_file :: string
  output_dir :: string
  w :: "real list"
  b :: "real list"
  g :: "real list"
  noise :: real
  noisy_edges_repetitions :: int
  random_terminals_repetitions :: int
  knockout :: "string list"
  dummy_mode :: "string option"
  exclude_terminals :: bool
  seed :: "int option"

datatype failure =
  ArgumentTypeError string
| InvalidChoice string
| MissingRequired string
| KeyError string

definition directory :: "filesystem \<Rightarrow> string \<Rightarrow> failure + string" where
  "directory fs dirname =
     (if \<not> isdir fs dirname then Inl (ArgumentTypeError (dirname @ '' is not a directory''))
      else Inr dirname)"

definition dummy_mode_choices :: "string list" where
  "dummy_mode_choices = [''terminals'', ''other'', ''all'']"

definition check_choice :: "string option \<Rightarrow> failure option" where
  "check_choice given =
     (case given of
        None \<Rightarrow> None
      | Some m \<Rightarrow> if m \<in> set dummy_mode_choices then None else Some (InvalidChoice m))"

definition parse_args :: "filesystem \<Rightarrow> invocation \<Rightarrow> failure + args" where
  "parse_args fs cmd =
     (case check_choice (given_dummyMode cmd) of Some e \<Rightarrow> Inl e | None \<Rightarrow>
     (case given_edge_file cmd of None \<Rightarrow> Inl (MissingRequired ''-e/--edge'') | Some e \<Rightarrow>
     (case given_prize_file cmd of None \<Rightarrow> Inl (MissingRequired ''-p/--prize'') | Some p \<Rightarrow>
     (case given_output_dir cmd of None \<Rightarrow> Inl (MissingRequired ''-o/--output'') | Some d \<Rightarrow>
     (case directory fs d of Inl e \<Rightarrow> Inl e | Inr d' \<Rightarrow>
        Inr \<lparr> edge_file = e,
              prize_file = p,
              output_dir = abspath fs d',
              w = (case given_w cmd of None \<Rightarrow> [6] | Some xs \<Rightarrow> xs),
              b = (case given_b cmd of None \<Rightarrow> [1] | Some xs \<Rightarrow> xs),
              g = (case given_g cmd of None \<Rightarrow> [20] | Some xs \<Rightarrow> xs),
              noise = (case given_noise cmd of None \<Rightarrow> 0.1 | Some x \<Rightarrow> x),
              noisy_edges_repetitions = (case given_noisy_edges cmd of None \<Rightarrow> 0 | Some n \<Rightarrow> n),
              random_terminals_repetitions =
                (case given_random_terminals cmd of None \<Rightarrow> 0 | Some n \<Rightarrow> n),
              knockout = (case given_knockout cmd of None \<Rightarrow> [] | Some ks \<Rightarrow> ks),
              dummy_mode = given_dummyMode cmd,
              exclude_terminals = given_excludeTerminals cmd,
              seed = given_seed cmd \<rparr>)))))"

text \<open>
  The values of the configuration mapping: lists of numbers, numbers, strings, booleans
  and \<^verbatim>\<open>None\<close>. The mapping is a dictionary in insertion order.
\<close>

datatype pvalue = PFloats "real list" | PFloat real | PInt int | PBool bool | PStr string | PNone

type_synonym params = "(string \<times> pvalue) list"

definition params_of :: "args \<Rightarrow> params" where
  "params_of a =
     filter (\<lambda>(param, v). v \<noteq> PNone)
       [(''w'', PFloats (w a)),
        (''b'', PFloats (b a)),
        (''g'', PFloats (g a)),
        (''noise'', PFloat (noise a)),
        (''dummy_mode'', (case dummy_mode a of None \<Rightarrow> PNone | Some m \<Rightarrow> PStr m)),
        (''exclude_terminals'', PBool (exclude_terminals a)),
        (''seed'', (case seed a of None \<Rightarrow> PNone | Some n \<Rightarrow> PInt n)),
        (''noisy_edges_repetitions'', PInt (noisy_edges_repetitions a)),
        (''random_terminals_repetitions'', PInt (random_terminals_repetitions a))]"

definition getitem :: "params \<Rightarrow> string \<Rightarrow> failure + pvalue" where
  "getitem d k = (case map_of d k of None \<Rightarrow> Inl (KeyError k) | Some v \<Rightarrow> Inr v)"

section \<open>Robust network\<close>

text \<open>
  Modelled from the spec: \<^verbatim>\<open>get_networkx_subgraph_from_randomizations\<close> is imported from
  \<^verbatim>\<open>graph.py\<close>, which is not part of the sources at hand; only its call with
  \<^verbatim>\<open>max_size=400\<close> is. The spec describes it as a frequency-ordered selection that ends
  when all nodes are included or the node cap is reached, and whose result is a subgraph
  with no dangling edges: the nodes are ordered by descending frequency (ties in table
  order), the first \<open>max_size\<close> of them are kept, with the edges among them.
\<close>

definition by_descending_frequency :: "node_row list \<Rightarrow> node_row list" where
  "by_descending_frequency rows = sort_key (\<lambda>r. - frequency r) rows"

definition get_networkx_subgraph_from_randomizations :: "nxgraph \<Rightarrow> nat \<Rightarrow> nxgraph" where
  "get_networkx_subgraph_from_randomizations G max_size =
     (let top_hits = take max_size (by_descending_frequency (node_rows G));
          kept = set (map node_name top_hits)
      in \<lparr> node_rows = top_hits,
           edge_list = filter (\<lambda>e. fst e \<in> kept \<and> snd e \<in> kept) (edge_list G) \<rparr>)"

section \<open>The driver\<close>

text \<open>
  What a run leaves behind: the files written (directory, subfolder, file name and the
  graph written), the lines printed, the summary rows collected so far, and the summary
  table written at the end of the run, if any, with its path.
\<close>

record file_write =
  project_dir :: string
  subfolder :: string
  filename :: string
  content :: nxgraph

record run_state =
  written :: "file_write list"
  printed :: "string list"
  summary_stats :: "summary_row list"
  stats_tsv :: "(string \<times> summary_row list) option"

definition initial_state :: run_state where
  "initial_state = \<lparr> written = [], printed = [], summary_stats = [], stats_tsv = None \<rparr>"

definition output_networkx_graph_as_files ::
  "nxgraph \<Rightarrow> string \<Rightarrow> string \<Rightarrow> string \<Rightarrow> file_write list" where
  "output_networkx_graph_as_files G dir t sub =
     map (\<lambda>name. \<lparr> project_dir = dir, subfolder = sub, filename = name, content = G \<rparr>)
       [t @ ''.gpickle'',
        t @ ''.nodes.tsv'',
        t @ ''.edges.tsv'',
        t @ ''.'' @ filter (\<lambda>c. c \<noteq> CHR ''/'') sub @ ''.json'']"

type_synonym result = "string \<times> nxgraph \<times> nxgraph"

text \<open>One pass of the loop over the results; a missing key of the mapping raises.\<close>

definition loop_body :: "args \<Rightarrow> params \<Rightarrow> result \<Rightarrow> run_state \<Rightarrow> failure + run_state" where
  "loop_body a ps r s =
     (case r of (t, forest, augmented_forest) \<Rightarrow>
        if number_of_nodes augmented_forest > 0 then
          (case getitem ps ''noisy_edges_repetitions'' of Inl e \<Rightarrow> Inl e | Inr n \<Rightarrow>
          (case getitem ps ''random_terminals_repetitions'' of Inl e \<Rightarrow> Inl e | Inr m \<Rightarrow>
             if n = m \<and> m = PInt 0 then
               Inr (s\<lparr> written := written s @
                         output_networkx_graph_as_files forest (output_dir a) t ''forest'',
                       summary_stats := summary_stats s @
                         [get_summary_statistics_from_nxgraph forest t] \<rparr>)
             else
               (let robust_network =
                      get_networkx_subgraph_from_randomizations augmented_forest 400
                in Inr (s\<lparr> written := written s @
                         output_networkx_graph_as_files augmented_forest (output_dir a) t
                           ''augmented_forest'' @
                         output_networkx_graph_as_files robust_network (output_dir a) t
                           ''robust_network'' \<rparr>))))
        else Inr (s\<lparr> printed := printed s @ [t @ '' is empty, results not printed.''] \<rparr>))"

fun main_loop :: "args \<Rightarrow> params \<Rightarrow> result list \<Rightarrow> run_state \<Rightarrow> failure + run_state" where
  "main_loop a ps [] s = Inr s"
| "main_loop a ps (r # rs) s =
     (case loop_body a ps r s of Inl e \<Rightarrow> Inl e | Inr s' \<Rightarrow> main_loop a ps rs s')"

definition write_summary :: "args \<Rightarrow> run_state \<Rightarrow> run_state" where
  "write_summary a s =
     (if length (summary_stats s) > 0 then
        s\<lparr> stats_tsv := Some (output_dir a @ ''/summary_stats.tsv'',
                              sort_key (\<lambda>row. (n_singletons row, n_all row)) (summary_stats s)) \<rparr>
      else s)"

text \<open>
  The grid search of the class \<^verbatim>\<open>Graph\<close> is not part of the sources at hand: the driver
  takes it as a parameter, from the edge file, the prize file and the configuration
  mapping to the list of results (tag, forest, augmented forest).
\<close>

definition main ::
  "filesystem \<Rightarrow> invocation \<Rightarrow> (string \<Rightarrow> string \<Rightarrow> params \<Rightarrow> result list) \<Rightarrow> failure + run_state" where
  "main fs cmd grid_search_randomizations =
     (case parse_args fs cmd of Inl e \<Rightarrow> Inl e | Inr a \<Rightarrow>
        (let ps = params_of a;
             results = grid_search_randomizations (edge_file a) (prize_file a) ps
         in case main_loop a ps results initial_state of
              Inl e \<Rightarrow> Inl e
            | Inr s \<Rightarrow> Inr (write_summary a s)))"

section \<open>Grid search engine\<close>









section \<open>Aggregator\<close>

text \<open>
  Modelled from the spec: the merge of the forests of the repetitions into an augmented
  forest lives in \<^verbatim>\<open>graph.py\<close>, which is not part of the sources at hand. The spec: a
  forest is a node set and an edge set; the merge builds the union of all node and edge
  sets and annotates each node and edge with frequency = occurrences / len(forests); on
  an empty input it returns an empty augmented forest rather than raising. An undirected
  edge is kept in one fixed orientation.
\<close>

record forest =
  forest_nodes :: "string set"
  forest_edges :: "(string \<times> string) set"

record augmented_forest =
  aug_nodes :: "string set"
  aug_edges :: "(string \<times> string) set"
  node_frequency :: "string \<Rightarrow> real"
  edge_frequency :: "string \<times> string \<Rightarrow> real"

definition occurrences :: "(forest \<Rightarrow> 'x set) \<Rightarrow> forest list \<Rightarrow> 'x \<Rightarrow> nat" where
  "occurrences part forests x = length (filter (\<lambda>f. x \<in> part f) forests)"

definition merge_to_augmented_forest :: "forest list \<Rightarrow> augmented_forest" where
  "merge_to_augmented_forest forests =
     (if forests = [] then
        \<lparr> aug_nodes = {}, aug_edges = {},
          node_frequency = (\<lambda>v. 0), edge_frequency = (\<lambda>e. 0) \<rparr>
      else
        \<lparr> aug_nodes = \<Union> (set (map forest_nodes forests)),
          aug_edges = \<Union> (set (map forest_edges forests)),
          node_frequency =
            (\<lambda>v. real (occurrences forest_nodes forests v) / real (length forests)),
          edge_frequency =
            (\<lambda>e. real (occurrences forest_edges forests e) / real (length forests)) \<rparr>)"

section \<open>What one result contributes to a run\<close>

text \<open>
  The files, the printed lines and the summary rows one result adds to the state of the
  driver's loop, read off \<open>loop_body\<close> for the configuration mapping the driver builds.
\<close>

definition cell_writes :: "args \<Rightarrow> result \<Rightarrow> file_write list" where
  "cell_writes a r =
     (case r of (t, forest, augmented_forest) \<Rightarrow>
        if number_of_nodes augmented_forest = 0 then []
        else if noisy_edges_repetitions a = 0 \<and> random_terminals_repetitions a = 0 then
          output_networkx_graph_as_files forest (output_dir a) t ''forest''
        else
          output_networkx_graph_as_files augmented_forest (output_dir a) t ''augmented_forest'' @
          output_networkx_graph_as_files
            (get_networkx_subgraph_from_randomizations augmented_forest 400) (output_dir a) t
            ''robust_network'')"

definition cell_rows :: "args \<Rightarrow> result \<Rightarrow> summary_row list" where
  "cell_rows a r =
     (case r of (t, forest, augmented_forest) \<Rightarrow>
        if number_of_nodes augmented_forest > 0 \<and>
           noisy_edges_repetitions a = 0 \<and> random_terminals_repetitions a = 0
        then [get_summary_statistics_from_nxgraph forest t] else [])"

definition cell_prints :: "result \<Rightarrow> string list" where
  "cell_prints r =
     (case r of (t, forest, augmented_forest) \<Rightarrow>
        if number_of_nodes augmented_forest = 0 then [t @ '' is empty, results not printed.'']
        else [])"

section \<open>Example inputs\<close>

definition example_fs :: filesystem where
  "example_fs = \<lparr> isdir = (\<lambda>d. True), abspath = (\<lambda>d. d) \<rparr>"

text \<open>A command line with the three required options and nothing else.\<close>

definition example_cmd :: invocation where
  "example_cmd =
     \<lparr> given_edge_file = Some ''edges.tsv'', given_prize_file = Some ''prizes.tsv'',
       given_output_dir = Some ''/out'', given_w = None, given_b = None, given_g = None,
       given_noise = None, given_noisy_edges = None, given_random_terminals = None,
       given_knockout = None, given_dummyMode = None, given_excludeTerminals = False,
       given_seed = None \<rparr>"

text \<open>The same command line with \<^verbatim>\<open>--noisy_edges 1\<close>.\<close>

definition noisy_cmd :: invocation where
  "noisy_cmd = example_cmd\<lparr> given_noisy_edges := Some 1 \<rparr>"

text \<open>A path A - S - B through one Steiner node, and an isolated node C of degree 0.\<close>

definition example_forest :: nxgraph where
  "example_forest =
     \<lparr> node_rows =
         [\<lparr> node_name = ''A'', node_type = ''protein'', node_degree = 1, frequency = 1 \<rparr>,
          \<lparr> node_name = ''S'', node_type = ''steiner'', node_degree = 2, frequency = 1/2 \<rparr>,
          \<lparr> node_name = ''B'', node_type = ''protein'', node_degree = 1, frequency = 1 \<rparr>,
          \<lparr> node_name = ''C'', node_type = ''protein'', node_degree = 0, frequency = 1/4 \<rparr>],
       edge_list = [(''A'', ''S''), (''S'', ''B'')] \<rparr>"

text \<open>Two prized nodes joined by an edge: a forest without Steiner nodes.\<close>

definition terminals_only_forest :: nxgraph where
  "terminals_only_forest =
     \<lparr> node_rows =
         [\<lparr> node_name = ''A'', node_type = ''protein'', node_degree = 1, frequency = 1 \<rparr>,
          \<lparr> node_name = ''B'', node_type = ''protein'', node_degree = 1, frequency = 1 \<rparr>],
       edge_list = [(''A'', ''B'')] \<rparr>"

definition empty_graph :: nxgraph where
  "empty_graph = \<lparr> node_rows = [], edge_list = [] \<rparr>"

text \<open>A grid search that returns one cell with a forest and one empty cell.\<close>

definition example_search :: "string \<Rightarrow> string \<Rightarrow> params \<Rightarrow> result list" where
  "example_search e p ps =
     [(''w_6_b_1_g_20'', example_forest, example_forest),
      (''w_6_b_1_g_30'', empty_graph, empty_graph)]"



text \<open>
  Three repetitions over the interactome A - B - C: the full path, the edge A - B alone,
  and a failed solve with an empty forest.
\<close>

definition forest_path :: forest where
  "forest_path =
     \<lparr> forest_nodes = {''A'', ''B'', ''C''}, forest_edges = {(''A'', ''B''), (''B'', ''C'')} \<rparr>"

definition forest_edge :: forest where
  "forest_edge = \<lparr> forest_nodes = {''A'', ''B''}, forest_edges = {(''A'', ''B'')} \<rparr>"

definition forest_failed :: forest where
  "forest_failed = \<lparr> forest_nodes = {}, forest_edges = {} \<rparr>"

section \<open>Properties of the summary statistics\<close>

lemma log_column_no_NaN:
  "filter (\<lambda>x. x \<noteq> NaN) (map (np_log \<circ> node_degree) rows) = map (np_log \<circ> node_degree) rows"
  by (induction rows) (auto simp: np_log_def)

lemma log_column_NegInf:
  "NegInf \<in> set (map (np_log \<circ> node_degree) rows) \<longleftrightarrow> 0 \<in> set (map node_degree rows)"
  by (induction rows) (auto simp: np_log_def)

lemma log_column_finite:
  "0 \<notin> set (map node_degree rows) \<Longrightarrow>
     map finite_part (map (np_log \<circ> node_degree) rows) =
     map (\<lambda>r. ln (real (node_degree r))) rows"
  by (induction rows) (auto simp: np_log_def)

lemma series_mean_log:
  "series_mean (map (np_log \<circ> node_degree) rows) =
     (if rows = [] then NaN
      else if 0 \<in> set (map node_degree rows) then NegInf
      else Finite (sum_list (map (\<lambda>r. ln (real (node_degree r))) rows) / real (length rows)))"
proof (cases "rows = []")
  case True
  then show ?thesis by (simp add: series_mean_def)
next
  case False
  show ?thesis
  proof (cases "0 \<in> set (map node_degree rows)")
    case True
    with False log_column_NegInf[of rows] show ?thesis
      unfolding series_mean_def Let_def log_column_no_NaN by simp
  next
    case nz: False
    from nz log_column_NegInf[of rows]
    have nneg: "NegInf \<notin> set (map (np_log \<circ> node_degree) rows)" by simp
    from False have ne: "map (np_log \<circ> node_degree) rows \<noteq> []" by simp
    have "series_mean (map (np_log \<circ> node_degree) rows) =
        Finite (sum_list (map finite_part (map (np_log \<circ> node_degree) rows)) /
                real (length (map (np_log \<circ> node_degree) rows)))"
      unfolding series_mean_def Let_def log_column_no_NaN using nneg ne by (simp only: if_False)
    also have "\<dots> =
        Finite (sum_list (map (\<lambda>r. ln (real (node_degree r))) rows) / real (length rows))"
      by (simp only: log_column_finite[OF nz] length_map)
    finally show ?thesis using False nz by (simp only: if_False)
  qed
qed

lemmas summary_defs =
  get_summary_statistics_from_nxgraph_def get_networkx_graph_as_node_edge_dataframes_def
  number_connected_components_def Let_def

text \<open>
  Claim C1, as the code has it. The natural log is taken of every degree of the column,
  with no exclusion and no guard: the mean log-degree of a category (all nodes, Steiner
  nodes, prize nodes) is NaN when the category is empty, minus infinity when one of its
  nodes has degree 0, and the mean of the logs otherwise; the value goes into the
  returned row as it is.
\<close>

theorem log_degree_means:
  "logDeg_all (get_summary_statistics_from_nxgraph G t) =
     (if node_rows G = [] then NaN
      else if 0 \<in> set (map node_degree (node_rows G)) then NegInf
      else Finite (sum_list (map (\<lambda>r. ln (real (node_degree r))) (node_rows G)) /
                   real (length (node_rows G)))) \<and>
   logDeg_steiner (get_summary_statistics_from_nxgraph G t) =
     (if filter (\<lambda>r. node_type r = ''steiner'') (node_rows G) = [] then NaN
      else if 0 \<in> set (map node_degree (filter (\<lambda>r. node_type r = ''steiner'') (node_rows G)))
      then NegInf
      else Finite
        (sum_list (map (\<lambda>r. ln (real (node_degree r)))
                     (filter (\<lambda>r. node_type r = ''steiner'') (node_rows G))) /
         real (length (filter (\<lambda>r. node_type r = ''steiner'') (node_rows G))))) \<and>
   logDeg_prizes (get_summary_statistics_from_nxgraph G t) =
     (if filter (\<lambda>r. node_type r \<noteq> ''steiner'') (node_rows G) = [] then NaN
      else if 0 \<in> set (map node_degree (filter (\<lambda>r. node_type r \<noteq> ''steiner'') (node_rows G)))
      then NegInf
      else Finite
        (sum_list (map (\<lambda>r. ln (real (node_degree r)))
                     (filter (\<lambda>r. node_type r \<noteq> ''steiner'') (node_rows G))) /
         real (length (filter (\<lambda>r. node_type r \<noteq> ''steiner'') (node_rows G)))))"
  unfolding summary_defs by (simp only: series_mean_log split_conv summary_row.simps)

text \<open>
  Witness for C1: in the example forest the Steiner node has degree 2, so the Steiner mean
  is \<open>ln 2\<close>; the isolated prize node of degree 0 makes the two other means minus
  infinity.
\<close>

theorem log_degree_means_witness:
  "logDeg_all (get_summary_statistics_from_nxgraph example_forest ''w_6_b_1_g_20'') = NegInf \<and>
   logDeg_steiner (get_summary_statistics_from_nxgraph example_forest ''w_6_b_1_g_20'') =
     Finite (ln 2) \<and>
   logDeg_prizes (get_summary_statistics_from_nxgraph example_forest ''w_6_b_1_g_20'') = NegInf"
  using log_degree_means[of example_forest "''w_6_b_1_g_20''"]
  by (simp add: example_forest_def)

text \<open>
  Counterexample to C1 as stated: a node of degree 0 is not excluded, and the minus
  infinity of its log reaches the returned row; a forest without Steiner nodes gets NaN
  as its Steiner mean.
\<close>

theorem log_degree_unguarded_counterexample:
  "logDeg_prizes (get_summary_statistics_from_nxgraph example_forest ''w_6_b_1_g_20'') = NegInf \<and>
   logDeg_all (get_summary_statistics_from_nxgraph example_forest ''w_6_b_1_g_20'') = NegInf \<and>
   logDeg_steiner (get_summary_statistics_from_nxgraph terminals_only_forest ''w_6_b_1_g_20'') = NaN"
  by (simp add: summary_defs example_forest_def terminals_only_forest_def series_mean_def np_log_def)

text \<open>
  Claim C10. A node counts as Steiner exactly when its type label is \<^verbatim>\<open>steiner\<close> and as
  prize otherwise, so the two counts add up to the number of nodes; the singleton count
  never exceeds the number of connected components.
\<close>

theorem summary_counts:
  "n_steiner (get_summary_statistics_from_nxgraph G t) =
     length (filter (\<lambda>r. node_type r = ''steiner'') (node_rows G)) \<and>
   n_prizes (get_summary_statistics_from_nxgraph G t) =
     length (filter (\<lambda>r. node_type r \<noteq> ''steiner'') (node_rows G)) \<and>
   n_steiner (get_summary_statistics_from_nxgraph G t) +
     n_prizes (get_summary_statistics_from_nxgraph G t) =
     n_all (get_summary_statistics_from_nxgraph G t) \<and>
   n_all (get_summary_statistics_from_nxgraph G t) = number_of_nodes G \<and>
   n_singletons (get_summary_statistics_from_nxgraph G t) \<le>
     n_components (get_summary_statistics_from_nxgraph G t)"
  by (simp add: summary_defs number_of_nodes_def sum_length_filter_compl)

text \<open>
  Witness for C10: the example forest has one Steiner node and three prize nodes, in two
  connected components, one of them the isolated node.
\<close>

theorem summary_counts_witness:
  "n_steiner (get_summary_statistics_from_nxgraph example_forest ''w_6_b_1_g_20'') = 1 \<and>
   n_prizes (get_summary_statistics_from_nxgraph example_forest ''w_6_b_1_g_20'') = 3 \<and>
   n_all (get_summary_statistics_from_nxgraph example_forest ''w_6_b_1_g_20'') = 4 \<and>
   n_components (get_summary_statistics_from_nxgraph example_forest ''w_6_b_1_g_20'') = 2 \<and>
   n_singletons (get_summary_statistics_from_nxgraph example_forest ''w_6_b_1_g_20'') = 1"
  using summary_counts[of example_forest "''w_6_b_1_g_20''"]
  by (simp add: summary_defs example_forest_def number_of_nodes_def connected_components_def
      join_edge_def touches_def)


section \<open>Properties of the command line and the configuration mapping\<close>



lemma getitem_noisy:
  "getitem (params_of a) ''noisy_edges_repetitions'' = Inr (PInt (noisy_edges_repetitions a))"
  by (simp add: getitem_def params_of_def split: option.splits)

lemma getitem_random:
  "getitem (params_of a) ''random_terminals_repetitions'' =
     Inr (PInt (random_terminals_repetitions a))"
  by (simp add: getitem_def params_of_def split: option.splits)

section \<open>Properties of the driver\<close>

text \<open>With the mapping the driver builds, no lookup fails and the loop runs to its end.\<close>

lemma loop_body_params_of:
  "loop_body a (params_of a) r s =
     Inr (s\<lparr> written := written s @ cell_writes a r,
             printed := printed s @ cell_prints r,
             summary_stats := summary_stats s @ cell_rows a r \<rparr>)"
  by (cases r) (auto simp: loop_body_def getitem_noisy getitem_random cell_writes_def cell_rows_def
      cell_prints_def Let_def)

lemma main_loop_params_of:
  "main_loop a (params_of a) rs s =
     Inr (s\<lparr> written := written s @ concat (map (cell_writes a) rs),
             printed := printed s @ concat (map cell_prints rs),
             summary_stats := summary_stats s @ concat (map (cell_rows a) rs) \<rparr>)"
  by (induction rs arbitrary: s) (simp_all add: loop_body_params_of)

lemma main_closed_form:
  assumes "parse_args fs cmd = Inr a"
  shows "main fs cmd search =
     Inr (write_summary a
       \<lparr> written = concat (map (cell_writes a) (search (edge_file a) (prize_file a) (params_of a))),
         printed = concat (map cell_prints (search (edge_file a) (prize_file a) (params_of a))),
         summary_stats =
           concat (map (cell_rows a) (search (edge_file a) (prize_file a) (params_of a))),
         stats_tsv = None \<rparr>)"
  using assms by (simp add: main_def Let_def main_loop_params_of initial_state_def)

lemma cell_rows_concat:
  "concat (map (cell_rows a) rs) =
     (if noisy_edges_repetitions a = 0 \<and> random_terminals_repetitions a = 0
      then map (\<lambda>r. get_summary_statistics_from_nxgraph (fst (snd r)) (fst r))
             (filter (\<lambda>r. number_of_nodes (snd (snd r)) > 0) rs)
      else [])"
  by (induction rs) (auto simp: cell_rows_def)

lemma parse_example_cmd:
  "parse_args example_fs example_cmd =
     Inr \<lparr> edge_file = ''edges.tsv'', prize_file = ''prizes.tsv'', output_dir = ''/out'',
           w = [6], b = [1], g = [20], noise = 0.1, noisy_edges_repetitions = 0,
           random_terminals_repetitions = 0, knockout = [], dummy_mode = None,
           exclude_terminals = False, seed = None \<rparr>"
  by (simp add: parse_args_def check_choice_def directory_def example_cmd_def example_fs_def)

lemma parse_noisy_cmd:
  "parse_args example_fs noisy_cmd =
     Inr \<lparr> edge_file = ''edges.tsv'', prize_file = ''prizes.tsv'', output_dir = ''/out'',
           w = [6], b = [1], g = [20], noise = 0.1, noisy_edges_repetitions = 1,
           random_terminals_repetitions = 0, knockout = [], dummy_mode = None,
           exclude_terminals = False, seed = None \<rparr>"
  by (simp add: parse_args_def check_choice_def directory_def noisy_cmd_def example_cmd_def
      example_fs_def)

lemma example_forest_nodes: "number_of_nodes example_forest = 4"
  by (simp add: number_of_nodes_def example_forest_def)

lemma empty_graph_nodes: "number_of_nodes empty_graph = 0"
  by (simp add: number_of_nodes_def empty_graph_def)



text \<open>
  Claim C2, as the code has it. When both repetition counts are 0, one summary row is
  computed, from the forest, for every result whose augmented forest has a node, in the
  order of the results; when a repetition count is not 0, no summary row is computed at
  all. At the end of the run the rows, sorted by singleton count and then node count,
  are written to \<^verbatim>\<open>summary_stats.tsv\<close> if there is at least one row; otherwise no table
  is written.
\<close>

theorem summary_table_of_run:
  assumes "parse_args fs cmd = Inr a"
  shows "\<exists>s. main fs cmd search = Inr s \<and>
     summary_stats s =
       (if noisy_edges_repetitions a = 0 \<and> random_terminals_repetitions a = 0
        then map (\<lambda>r. get_summary_statistics_from_nxgraph (fst (snd r)) (fst r))
               (filter (\<lambda>r. number_of_nodes (snd (snd r)) > 0)
                  (search (edge_file a) (prize_file a) (params_of a)))
        else []) \<and>
     stats_tsv s =
       (if summary_stats s = [] then None
        else Some (output_dir a @ ''/summary_stats.tsv'',
                   sort_key (\<lambda>row. (n_singletons row, n_all row)) (summary_stats s)))"
  unfolding main_closed_form[OF assms] cell_rows_concat
  by (simp add: write_summary_def)

text \<open>
  Witness for C2: without randomizations, the run over the example search writes a table
  with the one row of the cell that has a forest.
\<close>

theorem summary_table_of_run_witness:
  "\<exists>s. main example_fs example_cmd example_search = Inr s \<and>
     summary_stats s = [get_summary_statistics_from_nxgraph example_forest ''w_6_b_1_g_20''] \<and>
     stats_tsv s = Some (''/out/summary_stats.tsv'',
                         [get_summary_statistics_from_nxgraph example_forest ''w_6_b_1_g_20''])"
proof -
  from summary_table_of_run[OF parse_example_cmd, of example_search]
  obtain s where m: "main example_fs example_cmd example_search = Inr s"
    and rows: "summary_stats s =
        [get_summary_statistics_from_nxgraph example_forest ''w_6_b_1_g_20'']"
    and tsv: "stats_tsv s =
       (if summary_stats s = [] then None
        else Some (''/out'' @ ''/summary_stats.tsv'',
                   sort_key (\<lambda>row. (n_singletons row, n_all row)) (summary_stats s)))"
    by (auto simp: example_search_def example_forest_nodes empty_graph_nodes)
  from tsv have "stats_tsv s = Some (''/out/summary_stats.tsv'',
      [get_summary_statistics_from_nxgraph example_forest ''w_6_b_1_g_20''])"
    unfolding rows by simp
  with m rows show ?thesis by blast
qed

text \<open>
  Counterexample to C2 as stated: with \<^verbatim>\<open>--noisy_edges 1\<close> the same results leave no
  summary row and no summary table, although one result has a forest.
\<close>

theorem summary_table_counterexample:
  "map_sum id summary_stats (main example_fs noisy_cmd example_search) = Inr [] \<and>
   map_sum id stats_tsv (main example_fs noisy_cmd example_search) = Inr None \<and>
   number_of_nodes example_forest = 4"
  unfolding main_closed_form[OF parse_noisy_cmd]
  by (simp add: cell_rows_def example_search_def write_summary_def example_forest_nodes)



section \<open>Properties of the robust network\<close>

lemma set_take_sort_key: "set (take n (sort_key f xs)) \<subseteq> set xs"
  using set_take_subset[of n "sort_key f xs"] by simp

lemma robust_writes_bounded:
  "f \<in> set (cell_writes a r) \<Longrightarrow> subfolder f = ''robust_network'' \<Longrightarrow>
     number_of_nodes (content f) \<le> 400"
  by (auto simp: cell_writes_def output_networkx_graph_as_files_def
      get_networkx_subgraph_from_randomizations_def number_of_nodes_def Let_def
      split: if_splits)

text \<open>
  Claim C4. The robust network extracted from an augmented forest is a subgraph of it:
  its nodes and its edges are nodes and edges of the augmented forest, and every edge
  has both endpoints among its nodes. It has \<open>min max_size n\<close> nodes for an augmented
  forest of \<open>n\<close> nodes, hence at most \<open>max_size\<close>; every robust network the driver
  writes has at most 400 nodes.
\<close>

theorem robust_network_bounded_subgraph:
  "set (node_rows (get_networkx_subgraph_from_randomizations G max_size)) \<subseteq> set (node_rows G) \<and>
   set (edge_list (get_networkx_subgraph_from_randomizations G max_size)) \<subseteq> set (edge_list G) \<and>
   (\<forall>e \<in> set (edge_list (get_networkx_subgraph_from_randomizations G max_size)).
      fst e \<in> node_name ` set (node_rows (get_networkx_subgraph_from_randomizations G max_size)) \<and>
      snd e \<in> node_name ` set (node_rows (get_networkx_subgraph_from_randomizations G max_size))) \<and>
   number_of_nodes (get_networkx_subgraph_from_randomizations G max_size) =
     min max_size (number_of_nodes G) \<and>
   number_of_nodes (get_networkx_subgraph_from_randomizations G max_size) \<le> max_size \<and>
   (main fs cmd search = Inr s \<longrightarrow>
      (\<forall>f \<in> set (written s).
         subfolder f = ''robust_network'' \<longrightarrow> number_of_nodes (content f) \<le> 400))"
proof -
  have drv: "main fs cmd search = Inr s \<longrightarrow>
      (\<forall>f \<in> set (written s).
         subfolder f = ''robust_network'' \<longrightarrow> number_of_nodes (content f) \<le> 400)"
  proof
    assume m: "main fs cmd search = Inr s"
    then obtain a where a: "parse_args fs cmd = Inr a"
      by (auto simp: main_def split: sum.splits)
    from m show "\<forall>f \<in> set (written s).
        subfolder f = ''robust_network'' \<longrightarrow> number_of_nodes (content f) \<le> 400"
      unfolding main_closed_form[OF a] using robust_writes_bounded[of _ a]
      by (auto simp: write_summary_def split: if_splits)
  qed
  show ?thesis
    using drv set_take_sort_key[of max_size "\<lambda>r. - frequency r" "node_rows G"]
    by (auto simp: get_networkx_subgraph_from_randomizations_def Let_def number_of_nodes_def
        by_descending_frequency_def min_def)
qed

text \<open>
  Witness for C4: capped at 2, the robust network of the example forest keeps the two
  nodes of frequency 1 and none of the edges through the dropped Steiner node; the run
  with \<^verbatim>\<open>--noisy_edges 1\<close> writes a robust network, of at most 400 nodes.
\<close>

theorem robust_network_bounded_subgraph_witness:
  "map node_name (node_rows (get_networkx_subgraph_from_randomizations example_forest 2)) =
     [''A'', ''B''] \<and>
   edge_list (get_networkx_subgraph_from_randomizations example_forest 2) = [] \<and>
   number_of_nodes (get_networkx_subgraph_from_randomizations example_forest 2) = 2 \<and>
   (\<exists>s f. main example_fs noisy_cmd example_search = Inr s \<and> f \<in> set (written s) \<and>
      subfolder f = ''robust_network'' \<and> number_of_nodes (content f) \<le> 400)"
proof -
  let ?f = "\<lparr> project_dir = ''/out'', subfolder = ''robust_network'',
              filename = ''w_6_b_1_g_20.gpickle'',
              content = get_networkx_subgraph_from_randomizations example_forest 400 \<rparr>"
  obtain s where m: "main example_fs noisy_cmd example_search = Inr s"
    using main_closed_form[OF parse_noisy_cmd] by blast
  have "written s = concat (map (cell_writes
      \<lparr> edge_file = ''edges.tsv'', prize_file = ''prizes.tsv'', output_dir = ''/out'',
        w = [6], b = [1], g = [20], noise = 0.1, noisy_edges_repetitions = 1,
        random_terminals_repetitions = 0, knockout = [], dummy_mode = None,
        exclude_terminals = False, seed = None \<rparr>) (example_search ''edges.tsv'' ''prizes.tsv''
      (params_of \<lparr> edge_file = ''edges.tsv'', prize_file = ''prizes.tsv'', output_dir = ''/out'',
        w = [6], b = [1], g = [20], noise = 0.1, noisy_edges_repetitions = 1,
        random_terminals_repetitions = 0, knockout = [], dummy_mode = None,
        exclude_terminals = False, seed = None \<rparr>)))"
    using m unfolding main_closed_form[OF parse_noisy_cmd]
    by (auto simp: write_summary_def split: if_splits)
  then have mem: "?f \<in> set (written s)"
    by (simp add: example_search_def cell_writes_def example_forest_nodes empty_graph_nodes
        output_networkx_graph_as_files_def)
  note inst = robust_network_bounded_subgraph[of example_forest 2 example_fs noisy_cmd
      example_search s]
  from inst m mem have bound: "number_of_nodes (content ?f) \<le> 400"
    by (metis file_write.select_convs(2))
  from inst have n: "number_of_nodes (get_networkx_subgraph_from_randomizations example_forest 2) = 2"
    by (simp add: example_forest_nodes)
  have names: "map node_name (node_rows (get_networkx_subgraph_from_randomizations example_forest 2)) =
      [''A'', ''B'']"
    by (simp add: get_networkx_subgraph_from_randomizations_def by_descending_frequency_def
        example_forest_def Let_def)
  have edges: "edge_list (get_networkx_subgraph_from_randomizations example_forest 2) = []"
    by (simp add: get_networkx_subgraph_from_randomizations_def by_descending_frequency_def
        example_forest_def Let_def)
  from names edges n m mem bound show ?thesis
    by (intro conjI exI[of _ s] exI[of _ ?f]) simp_all
qed


section \<open>Properties of the aggregator\<close>

lemma occurrences_mset:
  "occurrences part forests x = size (filter_mset (\<lambda>f. x \<in> part f) (mset forests))"
  by (simp add: occurrences_def flip: mset_filter)

lemma occurrences_permuted:
  "mset forests' = mset forests \<Longrightarrow> occurrences part forests' = occurrences part forests"
  by (rule ext) (simp add: occurrences_mset)

lemma occurrences_le_length: "occurrences part forests x \<le> length forests"
  by (simp add: occurrences_def)

lemma occurrences_all:
  "occurrences part forests x = length forests \<longleftrightarrow> (\<forall>f \<in> set forests. x \<in> part f)"
proof (induction forests)
  case Nil
  then show ?case by (simp add: occurrences_def)
next
  case (Cons f fs)
  have "length (filter (\<lambda>f. x \<in> part f) fs) \<noteq> Suc (length fs)"
    using length_filter_le[of "\<lambda>f. x \<in> part f" fs] by linarith
  with Cons show ?case by (auto simp: occurrences_def)
qed

lemma merge_permuted:
  assumes "mset forests' = mset forests"
  shows "merge_to_augmented_forest forests' = merge_to_augmented_forest forests"
proof -
  from assms have s: "set forests' = set forests" by (rule mset_eq_setD)
  from assms have l: "length forests' = length forests" by (rule mset_eq_length)
  then have e: "forests' = [] \<longleftrightarrow> forests = []" by auto
  show ?thesis
    unfolding merge_to_augmented_forest_def
    by (simp add: s l e occurrences_permuted[OF assms])
qed

lemma ratio_bounds:
  fixes k n :: nat
  assumes "k \<le> n"
  shows "0 \<le> real k / real n" and "real k / real n \<le> 1"
    and "real k / real n = 1 \<longleftrightarrow> n \<noteq> 0 \<and> k = n"
  using assms by (auto simp: divide_le_eq_1 field_simps)

lemma frequency_unfold:
  "node_frequency (merge_to_augmented_forest forests) v =
     real (occurrences forest_nodes forests v) / real (length forests)"
  "edge_frequency (merge_to_augmented_forest forests) e =
     real (occurrences forest_edges forests e) / real (length forests)"
  by (simp_all add: merge_to_augmented_forest_def occurrences_def)

text \<open>
  Claim C7. Merging is order-independent: a permutation of the list of forests gives the
  same augmented forest; in particular the merge of two concatenated groups of forests
  does not depend on which group comes first, nor on how three groups are bracketed. The
  nodes and edges of the result are the unions of the node and edge sets, and on a
  non-empty list every frequency is the occurrence count divided by the number of
  forests.
\<close>

theorem merge_order_independent:
  "(mset forests' = mset forests \<longrightarrow>
      merge_to_augmented_forest forests' = merge_to_augmented_forest forests) \<and>
   merge_to_augmented_forest (xs @ ys) = merge_to_augmented_forest (ys @ xs) \<and>
   merge_to_augmented_forest ((xs @ ys) @ zs) = merge_to_augmented_forest (xs @ (ys @ zs)) \<and>
   aug_nodes (merge_to_augmented_forest forests) = \<Union> (forest_nodes ` set forests) \<and>
   aug_edges (merge_to_augmented_forest forests) = \<Union> (forest_edges ` set forests) \<and>
   (forests \<noteq> [] \<longrightarrow>
      node_frequency (merge_to_augmented_forest forests) v =
        real (length (filter (\<lambda>f. v \<in> forest_nodes f) forests)) / real (length forests) \<and>
      edge_frequency (merge_to_augmented_forest forests) e =
        real (length (filter (\<lambda>f. e \<in> forest_edges f) forests)) / real (length forests))"
proof -
  have perm: "mset forests' = mset forests \<longrightarrow>
      merge_to_augmented_forest forests' = merge_to_augmented_forest forests"
    using merge_permuted by blast
  have comm: "merge_to_augmented_forest (xs @ ys) = merge_to_augmented_forest (ys @ xs)"
    by (rule merge_permuted) (simp add: union_commute)
  have assoc: "merge_to_augmented_forest ((xs @ ys) @ zs) =
      merge_to_augmented_forest (xs @ (ys @ zs))"
    by simp
  have unions: "aug_nodes (merge_to_augmented_forest forests) = \<Union> (forest_nodes ` set forests)"
    "aug_edges (merge_to_augmented_forest forests) = \<Union> (forest_edges ` set forests)"
    by (simp_all add: merge_to_augmented_forest_def)
  have freq: "node_frequency (merge_to_augmented_forest forests) v =
        real (length (filter (\<lambda>f. v \<in> forest_nodes f) forests)) / real (length forests)"
      "edge_frequency (merge_to_augmented_forest forests) e =
        real (length (filter (\<lambda>f. e \<in> forest_edges f) forests)) / real (length forests)"
    by (simp_all add: frequency_unfold occurrences_def)
  from perm comm assoc unions freq show ?thesis by blast
qed

text \<open>
  Witness for C7: the three example repetitions merged in two orders. Node A is in two
  of the three forests, node C and the edge B - C in one.
\<close>

theorem merge_order_independent_witness:
  "merge_to_augmented_forest [forest_failed, forest_path, forest_edge] =
     merge_to_augmented_forest [forest_path, forest_edge, forest_failed] \<and>
   aug_nodes (merge_to_augmented_forest [forest_path, forest_edge, forest_failed]) =
     {''A'', ''B'', ''C''} \<and>
   node_frequency (merge_to_augmented_forest [forest_path, forest_edge, forest_failed]) ''A'' =
     2 / 3 \<and>
   edge_frequency (merge_to_augmented_forest [forest_path, forest_edge, forest_failed])
     (''B'', ''C'') = 1 / 3"
proof -
  note inst = merge_order_independent[of "[forest_failed, forest_path, forest_edge]"
      "[forest_path, forest_edge, forest_failed]" "[]" "[]" "[]" "''A''" "(''B'', ''C'')"]
  have p: "mset [forest_failed, forest_path, forest_edge] =
      mset [forest_path, forest_edge, forest_failed]"
    by simp
  from inst p have 1: "merge_to_augmented_forest [forest_failed, forest_path, forest_edge] =
     merge_to_augmented_forest [forest_path, forest_edge, forest_failed]"
    by blast
  from inst have 2: "aug_nodes (merge_to_augmented_forest [forest_path, forest_edge, forest_failed]) =
     {''A'', ''B'', ''C''}"
    by (auto simp: forest_path_def forest_edge_def forest_failed_def)
  from inst have 3: "node_frequency
      (merge_to_augmented_forest [forest_path, forest_edge, forest_failed]) ''A'' = 2 / 3"
    by (simp add: forest_path_def forest_edge_def forest_failed_def)
  from inst have 4: "edge_frequency
      (merge_to_augmented_forest [forest_path, forest_edge, forest_failed]) (''B'', ''C'') = 1 / 3"
    by (simp add: forest_path_def forest_edge_def forest_failed_def)
  from 1 2 3 4 show ?thesis by simp
qed

text \<open>
  Claim C8. In a merged augmented forest every node and edge frequency lies between 0 and
  1; it is 1 exactly for the elements that are in every repetition (of at least one);
  and between two merges of the same number of repetitions, an element that is in at
  least as many repetitions has at least as high a frequency.
\<close>

theorem frequency_bounds:
  "0 \<le> node_frequency (merge_to_augmented_forest forests) v \<and>
   node_frequency (merge_to_augmented_forest forests) v \<le> 1 \<and>
   0 \<le> edge_frequency (merge_to_augmented_forest forests) e \<and>
   edge_frequency (merge_to_augmented_forest forests) e \<le> 1 \<and>
   (node_frequency (merge_to_augmented_forest forests) v = 1 \<longleftrightarrow>
      forests \<noteq> [] \<and> (\<forall>f \<in> set forests. v \<in> forest_nodes f)) \<and>
   (edge_frequency (merge_to_augmented_forest forests) e = 1 \<longleftrightarrow>
      forests \<noteq> [] \<and> (\<forall>f \<in> set forests. e \<in> forest_edges f)) \<and>
   (length forests' = length forests \<and>
    length (filter (\<lambda>f. v \<in> forest_nodes f) forests) \<le>
      length (filter (\<lambda>f. v \<in> forest_nodes f) forests') \<longrightarrow>
      node_frequency (merge_to_augmented_forest forests) v \<le>
      node_frequency (merge_to_augmented_forest forests') v) \<and>
   (length forests' = length forests \<and>
    length (filter (\<lambda>f. e \<in> forest_edges f) forests) \<le>
      length (filter (\<lambda>f. e \<in> forest_edges f) forests') \<longrightarrow>
      edge_frequency (merge_to_augmented_forest forests) e \<le>
      edge_frequency (merge_to_augmented_forest forests') e)"
proof -
  note nb = ratio_bounds[OF occurrences_le_length[of forest_nodes forests v]]
  note eb = ratio_bounds[OF occurrences_le_length[of forest_edges forests e]]
  have n1: "node_frequency (merge_to_augmented_forest forests) v = 1 \<longleftrightarrow>
      forests \<noteq> [] \<and> (\<forall>f \<in> set forests. v \<in> forest_nodes f)"
    unfolding frequency_unfold nb(3) occurrences_all by simp
  have e1: "edge_frequency (merge_to_augmented_forest forests) e = 1 \<longleftrightarrow>
      forests \<noteq> [] \<and> (\<forall>f \<in> set forests. e \<in> forest_edges f)"
    unfolding frequency_unfold eb(3) occurrences_all by simp
  have mono: "\<And>(k::nat) k' n. k \<le> k' \<Longrightarrow> real k / real n \<le> real k' / real n"
    by (simp add: divide_right_mono)
  show ?thesis
    using nb(1,2) eb(1,2) n1 e1
    by (auto simp: frequency_unfold occurrences_def intro: mono)
qed

text \<open>
  Witness for C8: with one failed repetition out of three, node B has frequency 2/3 and
  not 1; merged without the failed repetition it has frequency 1, being in both forests.
\<close>

theorem frequency_bounds_witness:
  "node_frequency (merge_to_augmented_forest [forest_path, forest_edge, forest_failed]) ''B'' =
     2 / 3 \<and>
   node_frequency (merge_to_augmented_forest [forest_path, forest_edge]) ''B'' = 1 \<and>
   node_frequency (merge_to_augmented_forest [forest_path, forest_edge]) ''C'' \<le>
     node_frequency (merge_to_augmented_forest [forest_path, forest_path]) ''C''"
proof -
  have all: "forest_path \<noteq> forest_edge \<and> [forest_path, forest_edge] \<noteq> [] \<and>
      ''B'' \<in> forest_nodes forest_path \<and> ''B'' \<in> forest_nodes forest_edge"
    by (simp add: forest_path_def forest_edge_def)
  from frequency_bounds[of "[forest_path, forest_edge]" "''B''" "(''A'', ''B'')"
      "[forest_path, forest_edge]"] all
  have 1: "node_frequency (merge_to_augmented_forest [forest_path, forest_edge]) ''B'' = 1"
    by simp
  from frequency_bounds[of "[forest_path, forest_edge]" "''C''" "(''A'', ''B'')"
      "[forest_path, forest_path]"]
  have 2: "node_frequency (merge_to_augmented_forest [forest_path, forest_edge]) ''C'' \<le>
     node_frequency (merge_to_augmented_forest [forest_path, forest_path]) ''C''"
    by (simp add: forest_path_def forest_edge_def)
  have 3: "node_frequency
      (merge_to_augmented_forest [forest_path, forest_edge, forest_failed]) ''B'' = 2 / 3"
    by (simp add: frequency_unfold occurrences_def forest_path_def forest_edge_def
        forest_failed_def)
  from 1 2 3 show ?thesis by simp
qed


section \<open>Properties of the grid search engine\<close>











end
